theory Spec2Isabelle
  imports Complex_Main
begin

section \<open>Floating-point values of the arrays\<close>

text \<open>
  The script works on numpy \<^verbatim>\<open>float32\<close> arrays and Python floats (binary64). A value
  is NaN, an infinity or a finite number; the two signed zeros are identified, since
  every comparison the script makes treats them as equal and it never divides by a cell.
  Finite results are rounded to nearest, ties to even, in the format's precision.
\<close>

datatype fl = NaN | PInf | NInf | Fin real

definition pow2 :: "int \<Rightarrow> real" where
  "pow2 e = (if 0 \<le> e then 2 ^ nat e else 1 / 2 ^ nat (- e))"

definition round_half_even :: "real \<Rightarrow> int" where
  "round_half_even q =
     (let f = \<lfloor>q\<rfloor>; d = q - of_int f
      in if d < 1 / 2 then f else if 1 / 2 < d then f + 1 else if even f then f else f + 1)"

fun exp_up :: "nat \<Rightarrow> int \<Rightarrow> real \<Rightarrow> int" where
  "exp_up 0 e a = e"
| "exp_up (Suc n) e a = (if a < 2 then e else exp_up n (e + 1) (a / 2))"

fun exp_down :: "nat \<Rightarrow> int \<Rightarrow> real \<Rightarrow> int" where
  "exp_down 0 e a = e"
| "exp_down (Suc n) e a = (if 1 \<le> a then e else exp_down n (e - 1) (a * 2))"

text \<open>
  The binary exponent of a positive number, kept inside \<open>[emin, emax + 1]\<close>: below
  \<open>emin\<close> the format is subnormal, above \<open>emax\<close> the number overflows whatever its
  exponent is.
\<close>

definition binexp :: "int \<Rightarrow> int \<Rightarrow> real \<Rightarrow> int" where
  "binexp emin emax a =
     (if 1 \<le> a then exp_up (nat (emax + 1)) 0 a else exp_down (nat (- emin)) 0 a)"

definition round_to :: "nat \<Rightarrow> int \<Rightarrow> int \<Rightarrow> real \<Rightarrow> fl" where
  "round_to p emin emax q =
     (if q = 0 then Fin 0
      else let a = \<bar>q\<bar>;
               e = binexp emin emax a;
               u = pow2 (e - (int p - 1));
               v = of_int (round_half_even (a / u)) * u
           in if pow2 (emax + 1) \<le> v then (if 0 < q then PInf else NInf)
              else Fin (if 0 < q then v else - v))"

definition round32 :: "real \<Rightarrow> fl" where
  "round32 = round_to 24 (- 126) 127"

definition round64 :: "real \<Rightarrow> fl" where
  "round64 = round_to 53 (- 1022) 1023"

text \<open>\<^verbatim>\<open>astype('float32')\<close> on one cell.\<close>

fun to_f32 :: "fl \<Rightarrow> fl" where
  "to_f32 (Fin q) = round32 q"
| "to_f32 x = x"

text \<open>float32 addition and subtraction.\<close>

fun fadd32 :: "fl \<Rightarrow> fl \<Rightarrow> fl" where
  "fadd32 NaN y = NaN"
| "fadd32 x NaN = NaN"
| "fadd32 PInf NInf = NaN"
| "fadd32 NInf PInf = NaN"
| "fadd32 PInf y = PInf"
| "fadd32 NInf y = NInf"
| "fadd32 x PInf = PInf"
| "fadd32 x NInf = NInf"
| "fadd32 (Fin a) (Fin b) = round32 (a + b)"

fun fneg :: "fl \<Rightarrow> fl" where
  "fneg NaN = NaN"
| "fneg PInf = NInf"
| "fneg NInf = PInf"
| "fneg (Fin a) = Fin (- a)"

definition fsub32 :: "fl \<Rightarrow> fl \<Rightarrow> fl" where
  "fsub32 x y = fadd32 x (fneg y)"

text \<open>
  float32 division of a cell by a Python scalar; the script divides by the positive
  constants 2.0 and 10.0 only.
\<close>

fun fdiv32 :: "fl \<Rightarrow> real \<Rightarrow> fl" where
  "fdiv32 (Fin a) d = round32 (a / d)"
| "fdiv32 x d = x"

text \<open>The comparison \<^verbatim>\<open>==\<close>: NaN equals nothing, itself included.\<close>

definition feq :: "fl \<Rightarrow> fl \<Rightarrow> bool" where
  "feq x y = (x \<noteq> NaN \<and> y \<noteq> NaN \<and> x = y)"

definition isnan :: "fl \<Rightarrow> bool" where
  "isnan x = (x = NaN)"


section \<open>Two-dimensional arrays\<close>

type_synonym arr = "fl list list"

definition nrows :: "'a list list \<Rightarrow> nat" where
  "nrows a = length a"

definition ncols :: "'a list list \<Rightarrow> nat" where
  "ncols a = (case a of [] \<Rightarrow> 0 | r # _ \<Rightarrow> length r)"

text \<open>A band of a raster is rectangular with at least one row and one column.\<close>

definition rect :: "'a list list \<Rightarrow> bool" where
  "rect a = (0 < nrows a \<and> 0 < ncols a \<and> list_all (\<lambda>r. length r = ncols a) a)"

definition same_shape :: "'a list list \<Rightarrow> 'b list list \<Rightarrow> bool" where
  "same_shape a b = (nrows a = nrows b \<and> ncols a = ncols b)"

text \<open>
  numpy broadcasting of two 2-D operands: along each axis the lengths are equal or one
  of them is 1, and the axis of length 1 is repeated.
\<close>

definition compatible :: "nat \<Rightarrow> nat \<Rightarrow> bool" where
  "compatible m n = (m = n \<or> m = 1 \<or> n = 1)"

definition stretch :: "nat \<Rightarrow> 'a list \<Rightarrow> 'a list" where
  "stretch n xs = (case xs of [x] \<Rightarrow> replicate n x | _ \<Rightarrow> xs)"

definition bdim :: "nat \<Rightarrow> nat \<Rightarrow> nat" where
  "bdim m n = (if m = 1 then n else m)"

datatype exn = RasterioIOError | ValueError | OtherException

definition arr_binop :: "(fl \<Rightarrow> fl \<Rightarrow> fl) \<Rightarrow> arr \<Rightarrow> arr \<Rightarrow> exn + arr" where
  "arr_binop f a b =
     (if compatible (nrows a) (nrows b) \<and> compatible (ncols a) (ncols b)
      then let h = bdim (nrows a) (nrows b); w = bdim (ncols a) (ncols b)
           in Inr (map2 (\<lambda>x y. map2 f (stretch w x) (stretch w y)) (stretch h a) (stretch h b))
      else Inl ValueError)"

definition arr_div_scalar :: "arr \<Rightarrow> real \<Rightarrow> arr" where
  "arr_div_scalar a d = map (map (\<lambda>x. fdiv32 x d)) a"

definition astype_float32 :: "arr \<Rightarrow> arr" where
  "astype_float32 a = map (map to_f32) a"

text \<open>
  \<^verbatim>\<open>a[a == nodata] = np.nan\<close>: the Python scalar takes the array's type, float32,
  for the comparison.
\<close>

definition set_nan_where_eq :: "arr \<Rightarrow> fl \<Rightarrow> arr" where
  "set_nan_where_eq a nd = map (map (\<lambda>x. if feq x (to_f32 nd) then NaN else x)) a"

definition notnan_mask :: "arr \<Rightarrow> bool list list" where
  "notnan_mask a = map (map (\<lambda>x. \<not> isnan x)) a"

section \<open>Rasters, features and files\<close>

type_synonym affine = "real \<times> real \<times> real \<times> real \<times> real \<times> real"

text \<open>
  An opened raster: what \<^verbatim>\<open>read(1)\<close> gives (the band in the file's own number type,
  or the exception it raises), and the \<^verbatim>\<open>nodata\<close>, \<^verbatim>\<open>transform\<close> and
  \<^verbatim>\<open>crs\<close> attributes.
\<close>

record dataset =
  read1 :: "exn + arr"
  nodata :: "fl option"
  transform :: affine
  crs :: "string option"

type_synonym pos = "nat \<times> nat"

text \<open>
  A geometry is either a polygon traced from a raster, kept as the cells it covers and
  the transform that places them, or the buffer of a point: its x, y and radius.
\<close>

datatype geometry = Polygon affine "pos list" | Buffer real real real

record feature =
  change :: fl
  geometry :: geometry

record gdf_row =
  row_geometry :: "geometry option"
  row_change :: fl

record geodataframe =
  gdf_rows :: "gdf_row list"
  gdf_crs :: "string option"

text \<open>
  A path of the file system holds a raster that opens, a file whose opening raises an
  exception, or a collection that an earlier pass or run has written.
\<close>

datatype file_content = Raster dataset | Unreadable exn | GeoJSON geodataframe

type_synonym filesystem = "string \<rightharpoonup> file_content"

definition path_exists :: "filesystem \<Rightarrow> string \<Rightarrow> bool" where
  "path_exists fs p = (fs p \<noteq> None)"

text \<open>\<^verbatim>\<open>os.path.join\<close> of two components.\<close>

definition path_join :: "string \<Rightarrow> string \<Rightarrow> string" where
  "path_join a b =
     (if b \<noteq> [] \<and> hd b = CHR ''/'' then b
      else if a = [] \<or> last a = CHR ''/'' then a @ b
      else a @ ''/'' @ b)"

definition rasterio_open :: "filesystem \<Rightarrow> string \<Rightarrow> exn + dataset" where
  "rasterio_open fs p =
     (case fs p of
        None \<Rightarrow> Inl RasterioIOError
      | Some (Raster d) \<Rightarrow> Inr d
      | Some (Unreadable e) \<Rightarrow> Inl e
      | Some (GeoJSON g) \<Rightarrow> Inl RasterioIOError)"

section \<open>The loader\<close>

text \<open>
  Lines 44 to 46: when the minimum raster declares a nodata value, the cells equal to it
  become NaN, in the minimum and in the maximum array alike.
\<close>

definition mask_nodata :: "fl option \<Rightarrow> arr \<Rightarrow> arr" where
  "mask_nodata nd a = (case nd of None \<Rightarrow> a | Some n \<Rightarrow> set_nan_where_eq a n)"

text \<open>The body of the \<^verbatim>\<open>try\<close> block of \<^verbatim>\<open>load_avg_temp\<close>.\<close>

definition load_avg_temp_try ::
  "filesystem \<Rightarrow> string \<Rightarrow> string \<Rightarrow> exn + (arr \<times> affine \<times> string option)" where
  "load_avg_temp_try fs tmin_path tmax_path =
     (case rasterio_open fs tmin_path of
        Inl e \<Rightarrow> Inl e
      | Inr tmin_src \<Rightarrow>
     (case rasterio_open fs tmax_path of
        Inl e \<Rightarrow> Inl e
      | Inr tmax_src \<Rightarrow>
     (case read1 tmin_src of
        Inl e \<Rightarrow> Inl e
      | Inr a \<Rightarrow>
     (case read1 tmax_src of
        Inl e \<Rightarrow> Inl e
      | Inr b \<Rightarrow>
          let tmin = mask_nodata (nodata tmin_src) (astype_float32 a);
              tmax = mask_nodata (nodata tmin_src) (astype_float32 b)
          in (case arr_binop fadd32 tmin tmax of
                Inl e \<Rightarrow> Inl e
              | Inr s \<Rightarrow>
                  Inr (arr_div_scalar (arr_div_scalar s 2) 10,
                       transform tmin_src, crs tmin_src))))))"

text \<open>The two \<^verbatim>\<open>except\<close> clauses: both print a message and return three Nones.\<close>

definition load_avg_temp ::
  "filesystem \<Rightarrow> string \<Rightarrow> string \<Rightarrow> (arr \<times> affine \<times> string option) option" where
  "load_avg_temp fs tmin_path tmax_path =
     (case load_avg_temp_try fs tmin_path tmax_path of
        Inl RasterioIOError \<Rightarrow> None
      | Inl e \<Rightarrow> None
      | Inr r \<Rightarrow> Some r)"

section \<open>The sample features\<close>

text \<open>The table of \<^verbatim>\<open>(lat, lon, temp_change)\<close> of \<^verbatim>\<open>create_sample_data\<close>.\<close>

definition sample_points :: "(real \<times> real \<times> real) list" where
  "sample_points =
     [(60, - 100, - 25 / 10),
      (45, - 75, 18 / 10),
      (40, - 74, 21 / 10),
      (35, - 118, 32 / 10),
      (25, - 80, 28 / 10),
      (60, 10, 15 / 10),
      (50, 0, 20 / 10),
      (40, 15, 28 / 10),
      (35, 140, 23 / 10),
      (22, 114, 31 / 10),
      (- 35, 151, 26 / 10),
      (0, 0, 12 / 10),
      (- 20, - 50, 18 / 10),
      (70, - 150, - 18 / 10),
      (- 60, 0, - 5 / 10)]"

text \<open>
  Each point becomes \<^verbatim>\<open>Point(lon, lat).buffer(5)\<close> with the table's value, a Python
  float literal, as its property. The label is only printed.
\<close>

definition create_sample_data :: "string \<Rightarrow> feature list" where
  "create_sample_data label =
     map (\<lambda>(lat, lon, temp_change).
            \<lparr>change = round64 temp_change, geometry = Buffer lon lat 5\<rparr>)
         sample_points"

section \<open>Tracing a grid into polygons\<close>

text \<open>
  \<^verbatim>\<open>rasterio.features.shapes(change, mask=mask, transform=transform)\<close> with its
  default connectivity of 4, as the specification describes it: cells that are next to
  each other along a row or a column, carry the same value and have a true mask cell
  form one polygon, which is yielded with that value; cells with a false mask cell
  contribute nothing. Regions are found in row-major order of their first cell.
\<close>

definition in_bounds :: "'a list list \<Rightarrow> pos \<Rightarrow> bool" where
  "in_bounds g p = (fst p < length g \<and> snd p < length (g ! fst p))"

definition cell_at :: "'a list list \<Rightarrow> pos \<Rightarrow> 'a" where
  "cell_at g p = g ! fst p ! snd p"

definition mask_at :: "bool list list \<Rightarrow> pos \<Rightarrow> bool" where
  "mask_at m p = (in_bounds m p \<and> cell_at m p)"

definition all_cells :: "'a list list \<Rightarrow> pos list" where
  "all_cells g = concat (map (\<lambda>r. map (Pair r) [0..<length (g ! r)]) [0..<length g])"

definition adjacent4 :: "pos \<Rightarrow> pos list" where
  "adjacent4 p =
     (if 0 < fst p then [(fst p - 1, snd p)] else []) @
     (if 0 < snd p then [(fst p, snd p - 1)] else []) @
     [(fst p, snd p + 1), (fst p + 1, snd p)]"

definition joins :: "arr \<Rightarrow> bool list list \<Rightarrow> fl \<Rightarrow> pos \<Rightarrow> bool" where
  "joins g m v q = (in_bounds g q \<and> mask_at m q \<and> cell_at g q = v)"

fun flood :: "nat \<Rightarrow> arr \<Rightarrow> bool list list \<Rightarrow> fl \<Rightarrow> pos list \<Rightarrow> pos list \<Rightarrow> pos list" where
  "flood 0 g m v frontier seen = seen"
| "flood (Suc n) g m v frontier seen =
     (let new = filter (\<lambda>q. joins g m v q \<and> q \<notin> set seen)
                  (remdups (concat (map adjacent4 frontier)))
      in if new = [] then seen else flood n g m v new (seen @ new))"

definition region :: "arr \<Rightarrow> bool list list \<Rightarrow> pos \<Rightarrow> pos list" where
  "region g m p =
     (let s = flood (length (all_cells g)) g m (cell_at g p) [p] [p]
      in filter (\<lambda>q. q \<in> set s) (all_cells g))"

fun trace :: "arr \<Rightarrow> bool list list \<Rightarrow> pos list \<Rightarrow> pos list \<Rightarrow> (pos list \<times> fl) list" where
  "trace g m [] seen = []"
| "trace g m (p # ps) seen =
     (if mask_at m p \<and> p \<notin> set seen
      then (region g m p, cell_at g p) # trace g m ps (seen @ region g m p)
      else trace g m ps seen)"

definition shapes :: "arr \<Rightarrow> bool list list \<Rightarrow> affine \<Rightarrow> (geometry \<times> fl) list" where
  "shapes g m t = map (\<lambda>(r, v). (Polygon t r, v)) (trace g m (all_cells g) [])"

section \<open>The main loop\<close>

record config =
  periods :: "(string \<times> string \<times> string) list"
  data_dir :: string
  output_dir :: string
  baseline_period :: "(string \<times> string \<times> string) option"

definition PERIODS :: "(string \<times> string \<times> string) list" where
  "PERIODS =
     [(''2021-2040'', ''wc2.1_10m_tmin_ACCESS-CM2_ssp585_2021-2040.tif'',
       ''wc2.1_10m_tmax_ACCESS-CM2_ssp585_2021-2040.tif''),
      (''2041-2060'', ''wc2.1_10m_tmin_ACCESS-CM2_ssp585_2041-2060.tif'',
       ''wc2.1_10m_tmax_ACCESS-CM2_ssp585_2041-2060.tif''),
      (''2061-2080'', ''wc2.1_10m_tmin_ACCESS-CM2_ssp585_2061-2080.tif'',
       ''wc2.1_10m_tmax_ACCESS-CM2_ssp585_2061-2080.tif''),
      (''2081-2100'', ''wc2.1_10m_tmin_ACCESS-CM2_ssp585_2081-2100.tif'',
       ''wc2.1_10m_tmax_ACCESS-CM2_ssp585_2081-2100.tif'')]"

text \<open>The configuration as the script has it.\<close>

definition script_config :: config where
  "script_config =
     \<lparr>periods = PERIODS, data_dir = [], output_dir = ''../../public/data'',
      baseline_period = None\<rparr>"

text \<open>
  \<^verbatim>\<open>GeoDataFrame.from_features(features, crs=crs)\<close>: one row for each feature, with
  its geometry (a feature of this script always carries a geometry dictionary) and its
  property. This call and \<^verbatim>\<open>to_file\<close> are taken to build and write the rows
  they are given, whatever their number; what else geopandas does with them is not
  part of the script.
\<close>

definition from_features :: "feature list \<Rightarrow> string option \<Rightarrow> geodataframe" where
  "from_features fts c =
     \<lparr>gdf_rows = map (\<lambda>f. \<lparr>row_geometry = Some (geometry f), row_change = change f\<rparr>) fts,
      gdf_crs = c\<rparr>"

text \<open>Lines 134 to 137: the grid that is traced.\<close>

definition change_grid :: "arr \<Rightarrow> arr option \<Rightarrow> exn + arr" where
  "change_grid avg baseline_arr =
     (case baseline_arr of
        Some b \<Rightarrow> arr_binop fsub32 avg b
      | None \<Rightarrow> Inr avg)"

text \<open>Lines 139 to 143: the mask and the list of features.\<close>

definition vectorize :: "arr \<Rightarrow> affine \<Rightarrow> feature list" where
  "vectorize chg t =
     map (\<lambda>(geom, val). \<lparr>change = val, geometry = geom\<rparr>) (shapes chg (notnan_mask chg) t)"

definition out_path :: "config \<Rightarrow> string \<Rightarrow> string" where
  "out_path cfg label = path_join (output_dir cfg) (''avg_temp_change_'' @ label @ ''.json'')"

definition sample_frame :: "string \<Rightarrow> geodataframe" where
  "sample_frame label = from_features (create_sample_data label) (Some ''EPSG:4326'')"

text \<open>
  Lines 125 to 155 of one pass of the loop over \<^verbatim>\<open>PERIODS\<close>: the frame that
  will be written, or the exception that the subtraction of the baseline raises.
\<close>

definition period_frame ::
  "config \<Rightarrow> arr option \<Rightarrow> string \<times> string \<times> string \<Rightarrow> filesystem \<Rightarrow> exn + geodataframe" where
  "period_frame cfg baseline_arr period fs =
     (case period of (label, tmin_file, tmax_file) \<Rightarrow>
        let tmin_path = path_join (data_dir cfg) tmin_file;
            tmax_path = path_join (data_dir cfg) tmax_file
        in if path_exists fs tmin_path \<and> path_exists fs tmax_path
           then (case load_avg_temp fs tmin_path tmax_path of
                   Some (avg, t, c) \<Rightarrow>
                     (case change_grid avg baseline_arr of
                        Inl e \<Rightarrow> Inl e
                      | Inr chg \<Rightarrow> Inr (from_features (vectorize chg t) c))
                 | None \<Rightarrow> Inr (sample_frame label))
           else Inr (sample_frame label))"

text \<open>
  Lines 157 to 159. An exception that nothing catches ends the run: the result carries
  it, with the files as they are at that point.
\<close>

definition process_period ::
  "config \<Rightarrow> arr option \<Rightarrow> string \<times> string \<times> string \<Rightarrow> filesystem \<Rightarrow> exn option \<times> filesystem" where
  "process_period cfg baseline_arr period fs =
     (case period_frame cfg baseline_arr period fs of
        Inl e \<Rightarrow> (Some e, fs)
      | Inr g \<Rightarrow> (None, fs(out_path cfg (fst period) \<mapsto> GeoJSON g)))"

fun run_periods ::
  "config \<Rightarrow> arr option \<Rightarrow> (string \<times> string \<times> string) list \<Rightarrow> filesystem \<Rightarrow> exn option \<times> filesystem" where
  "run_periods cfg baseline_arr [] fs = (None, fs)"
| "run_periods cfg baseline_arr (p # ps) fs =
     (case process_period cfg baseline_arr p fs of
        (Some e, fs') \<Rightarrow> (Some e, fs')
      | (None, fs') \<Rightarrow> run_periods cfg baseline_arr ps fs')"

text \<open>Lines 105 to 109: the check is made on the file names as configured.\<close>

definition tiff_files_exist :: "config \<Rightarrow> filesystem \<Rightarrow> bool" where
  "tiff_files_exist cfg fs =
     list_ex (\<lambda>(label, tmin_file, tmax_file). path_exists fs tmin_file \<and> path_exists fs tmax_file)
       (periods cfg)"

text \<open>Lines 116 to 119.\<close>

definition load_baseline :: "config \<Rightarrow> filesystem \<Rightarrow> arr option" where
  "load_baseline cfg fs =
     (case baseline_period cfg of
        None \<Rightarrow> None
      | Some (label, tmin_b, tmax_b) \<Rightarrow>
          if tiff_files_exist cfg fs
          then map_option fst
                 (load_avg_temp fs (path_join (data_dir cfg) tmin_b) (path_join (data_dir cfg) tmax_b))
          else None)"

definition main :: "config \<Rightarrow> filesystem \<Rightarrow> exn option \<times> filesystem" where
  "main cfg fs = run_periods cfg (load_baseline cfg fs) (periods cfg) fs"

text \<open>The paths that a run reads, and the paths that it writes.\<close>

definition input_paths :: "config \<Rightarrow> (string \<times> string \<times> string) list \<Rightarrow> string set" where
  "input_paths cfg ps =
     (\<Union>(label, tmin_file, tmax_file)\<in>set ps.
        {path_join (data_dir cfg) tmin_file, path_join (data_dir cfg) tmax_file})"

definition output_paths :: "config \<Rightarrow> (string \<times> string \<times> string) list \<Rightarrow> string set" where
  "output_paths cfg ps = (\<lambda>(label, tmin_file, tmax_file). out_path cfg label) ` set ps"

text \<open>Whether a geometry traced from a grid contains a cell of that grid.\<close>

fun covers :: "geometry \<Rightarrow> pos \<Rightarrow> bool" where
  "covers (Polygon t cells) p = (p \<in> set cells)"
| "covers (Buffer x y r) p = False"


section \<open>Example inputs\<close>

text \<open>
  Two 4 by 4 rasters: the minimum band is 100 everywhere but at one cell, which holds
  the declared nodata value -9999; the maximum band is 200 everywhere.
\<close>

definition example_tmin :: "pos \<Rightarrow> arr" where
  "example_tmin p =
     map (\<lambda>r. map (\<lambda>c. if (r, c) = p then Fin (- 9999) else Fin 100) [0..<4]) [0..<4]"

definition example_tmax :: arr where
  "example_tmax = map (\<lambda>r. map (\<lambda>c. Fin 200) [0..<4]) [0..<4]"

definition example_fs :: "pos \<Rightarrow> affine \<Rightarrow> string option \<Rightarrow> filesystem" where
  "example_fs p t c =
     [''tmin.tif'' \<mapsto> Raster \<lparr>read1 = Inr (example_tmin p), nodata = Some (Fin (- 9999)),
                                transform = t, crs = c\<rparr>,
      ''tmax.tif'' \<mapsto> Raster \<lparr>read1 = Inr example_tmax, nodata = Some (Fin (- 9999)),
                                transform = t, crs = c\<rparr>]"

definition example_avg :: "pos \<Rightarrow> arr" where
  "example_avg p = map (\<lambda>r. map (\<lambda>c. if (r, c) = p then NaN else Fin 15) [0..<4]) [0..<4]"

definition example_cells :: "pos \<Rightarrow> pos list" where
  "example_cells p = filter (\<lambda>q. q \<noteq> p) (concat (map (\<lambda>r. map (Pair r) [0..<4]) [0..<4]))"

definition example_affine :: affine where
  "example_affine = (1 / 6, 0, - 180, 0, - 1 / 6, 90)"

definition example_config :: config where
  "example_config =
     \<lparr>periods = [(''2021-2040'', ''tmin.tif'', ''tmax.tif'')], data_dir = [],
      output_dir = ''../../public/data'', baseline_period = None\<rparr>"

text \<open>The same configuration with a baseline period whose rasters are not there.\<close>

definition baseline_config :: config where
  "baseline_config =
     example_config\<lparr>baseline_period := Some (''1970-2000'', ''base_tmin.tif'', ''base_tmax.tif'')\<rparr>"

text \<open>A minimum raster that cannot be opened, next to a maximum raster that can.\<close>

definition corrupt_fs :: filesystem where
  "corrupt_fs =
     [''tmin.tif'' \<mapsto> Unreadable RasterioIOError,
      ''tmax.tif'' \<mapsto> Raster \<lparr>read1 = Inr example_tmax, nodata = None,
                                transform = example_affine, crs = None\<rparr>]"

text \<open>Rasters of one cell: the minimum holds its nodata value.\<close>

definition blank_fs :: filesystem where
  "blank_fs =
     [''tmin.tif'' \<mapsto> Raster \<lparr>read1 = Inr [[Fin (- 9999)]], nodata = Some (Fin (- 9999)),
                                transform = example_affine, crs = None\<rparr>,
      ''tmax.tif'' \<mapsto> Raster \<lparr>read1 = Inr [[Fin 200]], nodata = Some (Fin (- 9999)),
                                transform = example_affine, crs = None\<rparr>]"


section \<open>Properties of the arrays\<close>

lemma stretch_id: "length xs = n \<Longrightarrow> stretch n xs = xs"
  by (auto simp: stretch_def split: list.splits)

lemma map2_stretch_rows:
  assumes "\<forall>x\<in>set a. length x = w" and "\<forall>y\<in>set b. length y = w"
  shows "map2 (\<lambda>x y. map2 f (stretch w x) (stretch w y)) a b = map2 (map2 f) a b"
proof (rule map_cong)
  show "zip a b = zip a b" by simp
next
  fix p assume "p \<in> set (zip a b)"
  then have "fst p \<in> set a" and "snd p \<in> set b"
    by (metis prod.collapse set_zip_leftD, metis prod.collapse set_zip_rightD)
  with assms have "stretch w (fst p) = fst p" and "stretch w (snd p) = snd p"
    by (simp_all add: stretch_id)
  then show "(case p of (x, y) \<Rightarrow> map2 f (stretch w x) (stretch w y)) = (case p of (x, y) \<Rightarrow> map2 f x y)"
    by (simp add: case_prod_unfold)
qed

lemma rect_rows: "rect a \<Longrightarrow> x \<in> set a \<Longrightarrow> length x = ncols a"
  by (simp add: rect_def list_all_iff)

lemma arr_binop_same_shape:
  assumes "rect a" and "rect b" and "same_shape a b"
  shows "arr_binop f a b = Inr (map2 (map2 f) a b)"
proof -
  from assms(3) have n: "nrows b = nrows a" and c: "ncols b = ncols a"
    by (simp_all add: same_shape_def)
  have h: "bdim (nrows a) (nrows a) = nrows a" and w: "bdim (ncols a) (ncols a) = ncols a"
    by (simp_all add: bdim_def)
  have sa: "stretch (nrows a) a = a" and sb: "stretch (nrows a) b = b"
    using n by (simp_all add: stretch_id nrows_def)
  have ra: "\<forall>x\<in>set a. length x = ncols a"
    using assms(1) by (simp add: rect_def list_all_iff)
  have rb: "\<forall>y\<in>set b. length y = ncols a"
    using assms(2) c by (simp add: rect_def list_all_iff)
  have rows: "map2 (\<lambda>x y. map2 f (stretch (ncols a) x) (stretch (ncols a) y)) a b = map2 (map2 f) a b"
    by (rule map2_stretch_rows [OF ra rb])
  show ?thesis
    by (simp add: arr_binop_def compatible_def n c h w sa sb rows)
qed

lemma nrows_map: "nrows (map (map f) a) = nrows a"
  by (simp add: nrows_def)

lemma ncols_map: "ncols (map (map f) a) = ncols a"
  by (cases a) (simp_all add: ncols_def)

lemma rect_map: "rect (map (map f) a) = rect a"
  by (simp add: rect_def nrows_map ncols_map list_all_iff)

lemma rect_mask_nodata: "rect (mask_nodata nd (astype_float32 a)) = rect a"
  by (simp add: mask_nodata_def set_nan_where_eq_def astype_float32_def rect_map split: option.splits)

lemma shape_mask_nodata:
  "nrows (mask_nodata nd (astype_float32 a)) = nrows a"
  "ncols (mask_nodata nd (astype_float32 a)) = ncols a"
  by (simp_all add: mask_nodata_def set_nan_where_eq_def astype_float32_def nrows_map ncols_map
      split: option.splits)

lemma arr_div_scalar_sum:
  "arr_div_scalar (arr_div_scalar (map2 (map2 fadd32) a b) 2) 10 =
   map2 (map2 (\<lambda>x y. fdiv32 (fdiv32 (fadd32 x y) 2) 10)) a b"
  by (simp add: arr_div_scalar_def case_prod_unfold)

section \<open>Properties of the loader\<close>

lemma load_avg_temp_rect:
  assumes "fs tmin_path = Some (Raster dmin)" and "fs tmax_path = Some (Raster dmax)"
    and "read1 dmin = Inr a" and "read1 dmax = Inr b"
    and "rect a" and "rect b" and "same_shape a b"
  shows "load_avg_temp fs tmin_path tmax_path =
           Some (map2 (map2 (\<lambda>x y. fdiv32 (fdiv32 (fadd32 x y) 2) 10))
                   (mask_nodata (nodata dmin) (astype_float32 a))
                   (mask_nodata (nodata dmin) (astype_float32 b)),
                 transform dmin, crs dmin)"
proof -
  let ?tmin = "mask_nodata (nodata dmin) (astype_float32 a)"
  let ?tmax = "mask_nodata (nodata dmin) (astype_float32 b)"
  have "same_shape ?tmin ?tmax"
    using assms(7) by (simp add: same_shape_def shape_mask_nodata)
  then have "arr_binop fadd32 ?tmin ?tmax = Inr (map2 (map2 fadd32) ?tmin ?tmax)"
    using assms(5,6) by (intro arr_binop_same_shape) (simp_all add: rect_mask_nodata)
  then have "load_avg_temp_try fs tmin_path tmax_path =
      Inr (map2 (map2 (\<lambda>x y. fdiv32 (fdiv32 (fadd32 x y) 2) 10)) ?tmin ?tmax,
           transform dmin, crs dmin)"
    using assms(1-4)
    by (simp add: load_avg_temp_try_def rasterio_open_def arr_div_scalar_sum)
  then show ?thesis
    by (simp add: load_avg_temp_def)
qed

lemma rect_example_tmin: "rect (example_tmin p)"
  by (simp add: example_tmin_def rect_def nrows_def ncols_def upt_rec)

lemma rect_example_tmax: "rect example_tmax"
  by (simp add: example_tmax_def rect_def nrows_def ncols_def upt_rec)

lemma same_shape_example: "same_shape (example_tmin p) example_tmax"
  by (simp add: example_tmin_def example_tmax_def same_shape_def nrows_def ncols_def upt_rec)



section \<open>Properties of the grids and of the tracing\<close>

lemma in_bounds_map: "in_bounds (map (map f) g) p = in_bounds g p"
  by (auto simp: in_bounds_def)

lemma cell_at_map: "in_bounds g p \<Longrightarrow> cell_at (map (map f) g) p = f (cell_at g p)"
  by (simp add: in_bounds_def cell_at_def)

lemma in_bounds_rect: "rect a \<Longrightarrow> in_bounds a (r, k) = (r < nrows a \<and> k < ncols a)"
  by (auto simp: in_bounds_def nrows_def dest: rect_rows [OF _ nth_mem])

lemma in_bounds_map2:
  "in_bounds a p \<Longrightarrow> in_bounds b p \<Longrightarrow> in_bounds (map2 (map2 f) a b) p"
  by (simp add: in_bounds_def)

lemma cell_at_map2:
  "in_bounds a p \<Longrightarrow> in_bounds b p \<Longrightarrow>
   cell_at (map2 (map2 f) a b) p = f (cell_at a p) (cell_at b p)"
  by (simp add: in_bounds_def cell_at_def)

lemma mask_at_notnan: "mask_at (notnan_mask g) p = (in_bounds g p \<and> cell_at g p \<noteq> NaN)"
  by (auto simp: mask_at_def notnan_mask_def in_bounds_map cell_at_map isnan_def)


lemma flood_joins: "q \<in> set (flood n g m v fr seen) \<Longrightarrow> q \<in> set seen \<or> joins g m v q"
proof (induction n arbitrary: fr seen)
  case 0
  then show ?case by simp
next
  case (Suc n)
  let ?new = "filter (\<lambda>q. joins g m v q \<and> q \<notin> set seen) (remdups (concat (map adjacent4 fr)))"
  show ?case
  proof (cases "?new = []")
    case True
    with Suc.prems show ?thesis by (simp add: Let_def)
  next
    case False
    with Suc.prems have "q \<in> set (flood n g m v ?new (seen @ ?new))"
      by (simp add: Let_def)
    from Suc.IH [OF this] show ?thesis by auto
  qed
qed


lemma region_mask: "mask_at m p \<Longrightarrow> q \<in> set (region g m p) \<Longrightarrow> mask_at m q"
  using flood_joins [of q _ g m "cell_at g p" "[p]" "[p]"]
  by (auto simp: region_def Let_def joins_def)

lemma region_value: "q \<in> set (region g m p) \<Longrightarrow> cell_at g q = cell_at g p"
  using flood_joins [of q _ g m "cell_at g p" "[p]" "[p]"]
  by (auto simp: region_def Let_def joins_def)


lemma trace_regions:
  "(r, v) \<in> set (trace g m ps seen) \<Longrightarrow>
   \<exists>p\<in>set ps. mask_at m p \<and> v = cell_at g p \<and> r = region g m p"
  by (induction ps arbitrary: seen) (auto split: if_splits)

lemma trace_empty: "\<forall>p\<in>set ps. \<not> mask_at m p \<Longrightarrow> trace g m ps seen = []"
  by (induction ps arbitrary: seen) auto

lemma vectorize_features:
  assumes "f \<in> set (vectorize chg t)"
  shows "\<exists>p. in_bounds chg p \<and> cell_at chg p \<noteq> NaN \<and> change f = cell_at chg p \<and>
             geometry f = Polygon t (region chg (notnan_mask chg) p)"
proof -
  from assms obtain r v where rv: "(r, v) \<in> set (trace chg (notnan_mask chg) (all_cells chg) [])"
    and f: "f = \<lparr>change = v, geometry = Polygon t r\<rparr>"
    by (auto simp: vectorize_def shapes_def)
  from trace_regions [OF rv] obtain p where "mask_at (notnan_mask chg) p"
    and "v = cell_at chg p" and "r = region chg (notnan_mask chg) p"
    by blast
  with f have "in_bounds chg p \<and> cell_at chg p \<noteq> NaN \<and> change f = cell_at chg p \<and>
      geometry f = Polygon t (region chg (notnan_mask chg) p)"
    by (simp add: mask_at_notnan)
  then show ?thesis ..
qed


lemma vectorize_covers:
  assumes "f \<in> set (vectorize chg t)" and "covers (geometry f) q"
  shows "in_bounds chg q \<and> cell_at chg q \<noteq> NaN"
proof -
  from vectorize_features [OF assms(1)] obtain p where p: "in_bounds chg p" "cell_at chg p \<noteq> NaN"
    and g: "geometry f = Polygon t (region chg (notnan_mask chg) p)"
    by blast
  from assms(2) g have q: "q \<in> set (region chg (notnan_mask chg) p)"
    by simp
  from p have "mask_at (notnan_mask chg) p"
    by (simp add: mask_at_notnan)
  from region_mask [OF this q] show ?thesis
    by (simp add: mask_at_notnan)
qed

lemma vectorize_all_nan:
  assumes "\<forall>p. in_bounds chg p \<longrightarrow> cell_at chg p = NaN"
  shows "vectorize chg t = []"
proof -
  from assms have "\<forall>p\<in>set (all_cells chg). \<not> mask_at (notnan_mask chg) p"
    unfolding mask_at_notnan by blast
  then show ?thesis
    by (simp add: vectorize_def shapes_def trace_empty)
qed

section \<open>Values of the rounding\<close>

lemma exp_up_numeral:
  "exp_up (numeral k) e a = (if a < 2 then e else exp_up (pred_numeral k) (e + 1) (a / 2))"
  by (simp add: numeral_eq_Suc)

lemma exp_down_numeral:
  "exp_down (numeral k) e a = (if 1 \<le> a then e else exp_down (pred_numeral k) (e - 1) (a * 2))"
  by (simp add: numeral_eq_Suc)

lemmas round_eval = round32_def round64_def round_to_def binexp_def pow2_def
  exp_up_numeral exp_down_numeral

lemma round32_values:
  "round32 100 = Fin 100" "round32 200 = Fin 200" "round32 (- 9999) = Fin (- 9999)"
  "round32 300 = Fin 300" "round32 150 = Fin 150" "round32 15 = Fin 15"
  by (simp_all add: round_eval) (simp_all add: round_half_even_def Let_def)

lemma fadd32_NaN_right: "fadd32 x NaN = NaN"
  by (cases x) simp_all

lemma fsub32_NaN: "fsub32 NaN y = NaN" "fsub32 x NaN = NaN"
  by (simp_all add: fsub32_def fadd32_NaN_right)

section \<open>The example\<close>

lemma map2_tabulate: "map2 h (map f xs) (map g xs) = map (\<lambda>x. h (f x) (g x)) xs"
  by (induction xs) simp_all

lemma example_grid:
  "map2 (map2 (\<lambda>x y. fdiv32 (fdiv32 (fadd32 x y) 2) 10))
     (mask_nodata (Some (Fin (- 9999))) (astype_float32 (example_tmin p)))
     (mask_nodata (Some (Fin (- 9999))) (astype_float32 example_tmax)) = example_avg p"
proof -
  have cell: "fdiv32 (fdiv32 (fadd32
        (if feq (to_f32 (if b then Fin (- 9999) else Fin 100)) (to_f32 (Fin (- 9999))) then NaN
         else to_f32 (if b then Fin (- 9999) else Fin 100))
        (if feq (to_f32 (Fin 200)) (to_f32 (Fin (- 9999))) then NaN else to_f32 (Fin 200))) 2) 10
      = (if b then NaN else Fin 15)" for b
    by (cases b) (simp_all add: round32_values feq_def)
  show ?thesis
    by (simp add: mask_nodata_def set_nan_where_eq_def astype_float32_def example_tmin_def
        example_tmax_def example_avg_def map2_tabulate comp_def cell del: to_f32.simps)
qed

lemma example_load:
  "load_avg_temp (example_fs p t c) ''tmin.tif'' ''tmax.tif'' = Some (example_avg p, t, c)"
proof -
  let ?dmin = "\<lparr>read1 = Inr (example_tmin p), nodata = Some (Fin (- 9999)),
                transform = t, crs = c\<rparr>"
  let ?dmax = "\<lparr>read1 = Inr example_tmax, nodata = Some (Fin (- 9999)),
                transform = t, crs = c\<rparr>"
  have h1: "example_fs p t c ''tmin.tif'' = Some (Raster ?dmin)"
    and h2: "example_fs p t c ''tmax.tif'' = Some (Raster ?dmax)"
    by (simp_all add: example_fs_def)
  have h3: "read1 ?dmin = Inr (example_tmin p)" and h4: "read1 ?dmax = Inr example_tmax"
    by simp_all
  from load_avg_temp_rect [where fs = "example_fs p t c" and tmin_path = "''tmin.tif''"
      and tmax_path = "''tmax.tif''", OF h1 h2 h3 h4 rect_example_tmin rect_example_tmax
      same_shape_example]
  show ?thesis
    by (simp add: example_grid)
qed

lemma example_trace_all:
  "\<forall>p\<in>set (List.product [0..<4] [0..<4]).
     trace (example_avg p) (notnan_mask (example_avg p)) (all_cells (example_avg p)) [] =
       [(example_cells p, Fin 15)]"
  by code_simp

lemma example_trace:
  assumes "i < 4" and "j < 4"
  shows "trace (example_avg (i, j)) (notnan_mask (example_avg (i, j)))
           (all_cells (example_avg (i, j))) [] = [(example_cells (i, j), Fin 15)]"
proof -
  from assms have "(i, j) \<in> set (List.product [0..<4] [0..<4])"
    by simp
  with example_trace_all show ?thesis
    by blast
qed

lemma example_vectorize:
  assumes "i < 4" and "j < 4"
  shows "vectorize (example_avg (i, j)) t =
           [\<lparr>change = Fin 15, geometry = Polygon t (example_cells (i, j))\<rparr>]"
  by (simp add: vectorize_def shapes_def example_trace [OF assms])

section \<open>Properties of one pass of the loop\<close>

lemma period_frame_missing:
  assumes "\<not> (path_exists fs (path_join (data_dir cfg) tmin_file) \<and>
              path_exists fs (path_join (data_dir cfg) tmax_file))"
  shows "period_frame cfg baseline_arr (label, tmin_file, tmax_file) fs = Inr (sample_frame label)"
  using assms by (auto simp: period_frame_def Let_def)

lemma period_frame_failed:
  assumes "load_avg_temp fs (path_join (data_dir cfg) tmin_file)
             (path_join (data_dir cfg) tmax_file) = None"
  shows "period_frame cfg baseline_arr (label, tmin_file, tmax_file) fs = Inr (sample_frame label)"
  using assms by (simp add: period_frame_def Let_def)

lemma period_frame_loaded:
  assumes "path_exists fs (path_join (data_dir cfg) tmin_file)"
    and "path_exists fs (path_join (data_dir cfg) tmax_file)"
    and "load_avg_temp fs (path_join (data_dir cfg) tmin_file)
           (path_join (data_dir cfg) tmax_file) = Some (avg, t, c)"
  shows "period_frame cfg baseline_arr (label, tmin_file, tmax_file) fs =
           (case change_grid avg baseline_arr of
              Inl e \<Rightarrow> Inl e
            | Inr chg \<Rightarrow> Inr (from_features (vectorize chg t) c))"
  using assms by (simp add: period_frame_def Let_def)

lemma process_period_writes:
  assumes "period_frame cfg baseline_arr (label, tmin_file, tmax_file) fs = Inr g"
  shows "process_period cfg baseline_arr (label, tmin_file, tmax_file) fs =
           (None, fs(out_path cfg label \<mapsto> GeoJSON g))"
  using assms by (simp add: process_period_def)

lemma path_join_empty: "path_join [] b = b"
  by (simp add: path_join_def)

lemma length_sample_frame: "length (gdf_rows (sample_frame label)) = 15"
  by (simp add: sample_frame_def from_features_def create_sample_data_def sample_points_def)

text \<open>
  C4. When one of the two input files of a period is missing, the period writes, under
  \<open>avg_temp_change_<label>.json\<close> in the output directory, the sample collection: 15
  rows, one for each entry of the table, each the buffer of radius 5 around the point
  (lon, lat) with the entry's value, in EPSG:4326. The collection is the same for
  every label.
\<close>

theorem missing_inputs_fallback:
  assumes "\<not> (path_exists fs (path_join (data_dir cfg) tmin_file) \<and>
              path_exists fs (path_join (data_dir cfg) tmax_file))"
  shows "process_period cfg baseline_arr (label, tmin_file, tmax_file) fs =
           (None, fs(path_join (output_dir cfg) (''avg_temp_change_'' @ label @ ''.json'') \<mapsto>
                       GeoJSON (sample_frame [])))
         \<and> length (gdf_rows (sample_frame [])) = 15
         \<and> gdf_rows (sample_frame []) =
             map (\<lambda>(lat, lon, temp_change).
                    \<lparr>row_geometry = Some (Buffer lon lat 5), row_change = round64 temp_change\<rparr>)
               sample_points
         \<and> gdf_crs (sample_frame []) = Some ''EPSG:4326''"
proof -
  have "sample_frame label = sample_frame []"
    by (simp add: sample_frame_def create_sample_data_def)
  with process_period_writes [OF period_frame_missing [OF assms]]
  have "process_period cfg baseline_arr (label, tmin_file, tmax_file) fs =
           (None, fs(path_join (output_dir cfg) (''avg_temp_change_'' @ label @ ''.json'') \<mapsto>
                       GeoJSON (sample_frame [])))"
    by (simp add: out_path_def)
  moreover have "gdf_rows (sample_frame []) =
             map (\<lambda>(lat, lon, temp_change).
                    \<lparr>row_geometry = Some (Buffer lon lat 5), row_change = round64 temp_change\<rparr>)
               sample_points"
    by (simp add: sample_frame_def from_features_def create_sample_data_def case_prod_unfold)
  moreover have "gdf_crs (sample_frame []) = Some ''EPSG:4326''"
    by (simp add: sample_frame_def from_features_def)
  ultimately show ?thesis
    using length_sample_frame by blast
qed

theorem missing_inputs_fallback_witness:
  "\<not> (path_exists Map.empty (path_join (data_dir script_config) ''wc2.1_10m_tmin_ACCESS-CM2_ssp585_2021-2040.tif'') \<and>
      path_exists Map.empty (path_join (data_dir script_config) ''wc2.1_10m_tmax_ACCESS-CM2_ssp585_2021-2040.tif''))
   \<and> process_period script_config None
        (''2021-2040'', ''wc2.1_10m_tmin_ACCESS-CM2_ssp585_2021-2040.tif'',
         ''wc2.1_10m_tmax_ACCESS-CM2_ssp585_2021-2040.tif'') Map.empty =
      (None, [''../../public/data/avg_temp_change_2021-2040.json'' \<mapsto> GeoJSON (sample_frame [])])
   \<and> length (gdf_rows (sample_frame [])) = 15"
proof -
  have h: "\<not> (path_exists Map.empty (path_join (data_dir script_config) ''wc2.1_10m_tmin_ACCESS-CM2_ssp585_2021-2040.tif'') \<and>
      path_exists Map.empty (path_join (data_dir script_config) ''wc2.1_10m_tmax_ACCESS-CM2_ssp585_2021-2040.tif''))"
    by (simp add: path_exists_def)
  have p: "path_join (output_dir script_config) (''avg_temp_change_'' @ ''2021-2040'' @ ''.json'') =
      ''../../public/data/avg_temp_change_2021-2040.json''"
    by (simp add: path_join_def script_config_def)
  note t = missing_inputs_fallback [OF h, of None "''2021-2040''"]
  from t [THEN conjunct1] p
  have "process_period script_config None
        (''2021-2040'', ''wc2.1_10m_tmin_ACCESS-CM2_ssp585_2021-2040.tif'',
         ''wc2.1_10m_tmax_ACCESS-CM2_ssp585_2021-2040.tif'') Map.empty =
      (None, [''../../public/data/avg_temp_change_2021-2040.json'' \<mapsto> GeoJSON (sample_frame [])])"
    by simp
  with h t [THEN conjunct2, THEN conjunct1] show ?thesis
    by blast
qed

text \<open>
  C5. Whatever exception the opening or the reading of the two rasters raises, the
  loader returns None; the period then writes the sample collection, and the loop goes
  on with the remaining periods, on the files as they were plus that one output.
\<close>

theorem load_failure_recovers:
  assumes "path_exists fs (path_join (data_dir cfg) tmin_file)"
    and "path_exists fs (path_join (data_dir cfg) tmax_file)"
    and "load_avg_temp_try fs (path_join (data_dir cfg) tmin_file)
           (path_join (data_dir cfg) tmax_file) = Inl e"
  shows "load_avg_temp fs (path_join (data_dir cfg) tmin_file)
           (path_join (data_dir cfg) tmax_file) = None
         \<and> process_period cfg baseline_arr (label, tmin_file, tmax_file) fs =
             (None, fs(out_path cfg label \<mapsto> GeoJSON (sample_frame label)))
         \<and> run_periods cfg baseline_arr ((label, tmin_file, tmax_file) # rest) fs =
             run_periods cfg baseline_arr rest (fs(out_path cfg label \<mapsto> GeoJSON (sample_frame label)))"
proof -
  from assms(3) have none: "load_avg_temp fs (path_join (data_dir cfg) tmin_file)
           (path_join (data_dir cfg) tmax_file) = None"
    by (cases e) (simp_all add: load_avg_temp_def)
  from process_period_writes [OF period_frame_failed [OF none]]
  have "process_period cfg baseline_arr (label, tmin_file, tmax_file) fs =
             (None, fs(out_path cfg label \<mapsto> GeoJSON (sample_frame label)))" .
  with none show ?thesis
    by simp
qed

theorem load_failure_recovers_witness:
  "path_exists corrupt_fs (path_join (data_dir example_config) ''tmin.tif'')
   \<and> path_exists corrupt_fs (path_join (data_dir example_config) ''tmax.tif'')
   \<and> load_avg_temp_try corrupt_fs (path_join (data_dir example_config) ''tmin.tif'')
        (path_join (data_dir example_config) ''tmax.tif'') = Inl RasterioIOError
   \<and> load_avg_temp corrupt_fs (path_join (data_dir example_config) ''tmin.tif'')
        (path_join (data_dir example_config) ''tmax.tif'') = None
   \<and> process_period example_config None (''2021-2040'', ''tmin.tif'', ''tmax.tif'') corrupt_fs =
        (None, corrupt_fs(out_path example_config ''2021-2040'' \<mapsto> GeoJSON (sample_frame ''2021-2040'')))"
proof -
  have h1: "path_exists corrupt_fs (path_join (data_dir example_config) ''tmin.tif'')"
    and h2: "path_exists corrupt_fs (path_join (data_dir example_config) ''tmax.tif'')"
    by (simp_all add: path_exists_def corrupt_fs_def example_config_def path_join_empty)
  have h3: "load_avg_temp_try corrupt_fs (path_join (data_dir example_config) ''tmin.tif'')
        (path_join (data_dir example_config) ''tmax.tif'') = Inl RasterioIOError"
    by (simp add: load_avg_temp_try_def rasterio_open_def corrupt_fs_def example_config_def
        path_join_empty)
  from load_failure_recovers [OF h1 h2 h3, of None "''2021-2040''" "[]"] h1 h2 h3 show ?thesis
    by simp
qed

lemma in_bounds_same_shape:
  assumes "rect a" and "rect b" and "same_shape a b"
  shows "in_bounds a p = in_bounds b p"
  using assms by (cases p) (simp add: in_bounds_rect same_shape_def)



lemma example_paths:
  "path_exists (example_fs p t c) ''tmin.tif''" "path_exists (example_fs p t c) ''tmax.tif''"
  by (simp_all add: path_exists_def example_fs_def)

lemma period_frame_no_baseline:
  "\<exists>g. period_frame cfg None period fs = Inr g"
  by (cases period) (simp add: period_frame_def Let_def change_grid_def split: option.splits)

lemma run_periods_no_baseline: "fst (run_periods cfg None ps fs) = None"
proof (induction ps arbitrary: fs)
  case Nil
  show ?case by simp
next
  case (Cons p ps)
  from period_frame_no_baseline obtain g where "period_frame cfg None p fs = Inr g"
    by blast
  then have "run_periods cfg None (p # ps) fs =
      run_periods cfg None ps (fs(out_path cfg (fst p) \<mapsto> GeoJSON g))"
    by (simp add: process_period_def)
  with Cons.IH show ?case
    by simp
qed



text \<open>
  C10. When the rasters of a period load and every cell of the grid to trace is NaN,
  no feature is produced and the period writes a collection without rows, with the
  raster's spatial reference; this is not the sample collection.
\<close>

theorem all_nan_writes_empty:
  assumes "path_exists fs (path_join (data_dir cfg) tmin_file)"
    and "path_exists fs (path_join (data_dir cfg) tmax_file)"
    and "load_avg_temp fs (path_join (data_dir cfg) tmin_file)
           (path_join (data_dir cfg) tmax_file) = Some (avg, t, c)"
    and "change_grid avg baseline_arr = Inr chg"
    and "\<forall>p. in_bounds chg p \<longrightarrow> cell_at chg p = NaN"
  shows "vectorize chg t = []
     \<and> process_period cfg baseline_arr (label, tmin_file, tmax_file) fs =
         (None, fs(out_path cfg label \<mapsto> GeoJSON \<lparr>gdf_rows = [], gdf_crs = c\<rparr>))
     \<and> \<lparr>gdf_rows = [], gdf_crs = c\<rparr> \<noteq> sample_frame label"
proof -
  have v: "vectorize chg t = []"
    by (rule vectorize_all_nan [OF assms(5)])
  have "period_frame cfg baseline_arr (label, tmin_file, tmax_file) fs =
      Inr \<lparr>gdf_rows = [], gdf_crs = c\<rparr>"
    by (simp add: period_frame_loaded [OF assms(1-3)] assms(4) v from_features_def)
  note w = process_period_writes [OF this]
  have "gdf_rows \<lparr>gdf_rows = [], gdf_crs = c\<rparr> \<noteq> gdf_rows (sample_frame label)"
    using length_sample_frame [of label] by auto
  then have "\<lparr>gdf_rows = [], gdf_crs = c\<rparr> \<noteq> sample_frame label"
    by metis
  with v w show ?thesis
    by blast
qed

lemma blank_load:
  "load_avg_temp blank_fs ''tmin.tif'' ''tmax.tif'' = Some ([[NaN]], example_affine, None)"
  by (simp add: load_avg_temp_def load_avg_temp_try_def rasterio_open_def blank_fs_def
      astype_float32_def mask_nodata_def set_nan_where_eq_def arr_binop_def arr_div_scalar_def
      compatible_def nrows_def ncols_def bdim_def stretch_def round32_values feq_def)

theorem all_nan_writes_empty_witness:
  "path_exists blank_fs (path_join (data_dir example_config) ''tmin.tif'')
   \<and> path_exists blank_fs (path_join (data_dir example_config) ''tmax.tif'')
   \<and> load_avg_temp blank_fs (path_join (data_dir example_config) ''tmin.tif'')
        (path_join (data_dir example_config) ''tmax.tif'') = Some ([[NaN]], example_affine, None)
   \<and> change_grid [[NaN]] None = Inr [[NaN]]
   \<and> all_cells [[NaN]] = [(0, 0)] \<and> cell_at [[NaN]] (0, 0) = NaN
   \<and> process_period example_config None (''2021-2040'', ''tmin.tif'', ''tmax.tif'') blank_fs =
        (None, blank_fs(out_path example_config ''2021-2040'' \<mapsto>
                 GeoJSON \<lparr>gdf_rows = [], gdf_crs = None\<rparr>))"
proof -
  have d: "data_dir example_config = []"
    by (simp add: example_config_def)
  have h1: "path_exists blank_fs (path_join (data_dir example_config) ''tmin.tif'')"
    and h2: "path_exists blank_fs (path_join (data_dir example_config) ''tmax.tif'')"
    by (simp_all add: d path_join_empty path_exists_def blank_fs_def)
  have h3: "load_avg_temp blank_fs (path_join (data_dir example_config) ''tmin.tif'')
        (path_join (data_dir example_config) ''tmax.tif'') = Some ([[NaN]], example_affine, None)"
    by (simp add: d path_join_empty blank_load)
  have h4: "change_grid [[NaN]] None = Inr [[NaN]]"
    by (simp add: change_grid_def)
  have h5: "\<forall>p. in_bounds [[NaN]] p \<longrightarrow> cell_at [[NaN]] p = NaN"
    by (auto simp: in_bounds_def cell_at_def)
  have h6: "all_cells [[NaN]] = [(0, 0)]" and h7: "cell_at [[NaN]] (0, 0) = NaN"
    by (simp_all add: all_cells_def cell_at_def)
  from all_nan_writes_empty [OF h1 h2 h3 h4 h5, of "''2021-2040''"] h1 h2 h3 h4 h6 h7
  show ?thesis
    by blast
qed

text \<open>
  C9. When a baseline period is configured and its rasters fail to load, or no period
  has both of its files so that the load is not attempted, there is no baseline grid:
  the run is the loop without a baseline, it ends without an exception, and a period
  whose own rasters load writes the features of its derived grid, not the sample ones.
\<close>

theorem baseline_failure_ignored:
  assumes "baseline_period cfg = Some (bl_label, tmin_b, tmax_b)"
    and "\<not> tiff_files_exist cfg fs \<or>
         load_avg_temp fs (path_join (data_dir cfg) tmin_b) (path_join (data_dir cfg) tmax_b) = None"
  shows "load_baseline cfg fs = None
     \<and> main cfg fs = run_periods cfg None (periods cfg) fs
     \<and> fst (main cfg fs) = None
     \<and> (path_exists fs' (path_join (data_dir cfg) tmin_file)
          \<and> path_exists fs' (path_join (data_dir cfg) tmax_file)
          \<and> load_avg_temp fs' (path_join (data_dir cfg) tmin_file)
                (path_join (data_dir cfg) tmax_file) = Some (avg, t, c) \<longrightarrow>
        process_period cfg (load_baseline cfg fs) (label, tmin_file, tmax_file) fs' =
          (None, fs'(out_path cfg label \<mapsto> GeoJSON (from_features (vectorize avg t) c))))"
proof -
  from assms have b: "load_baseline cfg fs = None"
    by (auto simp: load_baseline_def)
  then have m: "main cfg fs = run_periods cfg None (periods cfg) fs"
    by (simp add: main_def)
  then have f: "fst (main cfg fs) = None"
    by (simp add: run_periods_no_baseline)
  have "process_period cfg (load_baseline cfg fs) (label, tmin_file, tmax_file) fs' =
          (None, fs'(out_path cfg label \<mapsto> GeoJSON (from_features (vectorize avg t) c)))"
    if h: "path_exists fs' (path_join (data_dir cfg) tmin_file)"
      "path_exists fs' (path_join (data_dir cfg) tmax_file)"
      "load_avg_temp fs' (path_join (data_dir cfg) tmin_file)
                (path_join (data_dir cfg) tmax_file) = Some (avg, t, c)"
  proof -
    have "period_frame cfg None (label, tmin_file, tmax_file) fs' =
        Inr (from_features (vectorize avg t) c)"
      by (simp add: period_frame_loaded [OF h] change_grid_def)
    from process_period_writes [OF this] b show ?thesis
      by simp
  qed
  with b m f show ?thesis
    by blast
qed

theorem baseline_failure_ignored_witness:
  "baseline_period baseline_config = Some (''1970-2000'', ''base_tmin.tif'', ''base_tmax.tif'')
   \<and> load_avg_temp (example_fs (1, 2) example_affine None)
        (path_join (data_dir baseline_config) ''base_tmin.tif'')
        (path_join (data_dir baseline_config) ''base_tmax.tif'') = None
   \<and> path_exists (example_fs (1, 2) example_affine None) (path_join (data_dir baseline_config) ''tmin.tif'')
   \<and> path_exists (example_fs (1, 2) example_affine None) (path_join (data_dir baseline_config) ''tmax.tif'')
   \<and> load_avg_temp (example_fs (1, 2) example_affine None)
        (path_join (data_dir baseline_config) ''tmin.tif'')
        (path_join (data_dir baseline_config) ''tmax.tif'') = Some (example_avg (1, 2), example_affine, None)
   \<and> fst (main baseline_config (example_fs (1, 2) example_affine None)) = None
   \<and> process_period baseline_config
        (load_baseline baseline_config (example_fs (1, 2) example_affine None))
        (''2021-2040'', ''tmin.tif'', ''tmax.tif'') (example_fs (1, 2) example_affine None) =
       (None, (example_fs (1, 2) example_affine None)(out_path baseline_config ''2021-2040'' \<mapsto>
          GeoJSON (from_features (vectorize (example_avg (1, 2)) example_affine) None)))"
proof -
  let ?fs = "example_fs (1, 2) example_affine None"
  have d: "data_dir baseline_config = []"
    by (simp add: baseline_config_def example_config_def)
  have h1: "baseline_period baseline_config = Some (''1970-2000'', ''base_tmin.tif'', ''base_tmax.tif'')"
    by (simp add: baseline_config_def)
  have h2: "load_avg_temp ?fs (path_join (data_dir baseline_config) ''base_tmin.tif'')
        (path_join (data_dir baseline_config) ''base_tmax.tif'') = None"
    by (simp add: d path_join_empty load_avg_temp_def load_avg_temp_try_def rasterio_open_def
        example_fs_def)
  then have h2': "\<not> tiff_files_exist baseline_config ?fs \<or>
      load_avg_temp ?fs (path_join (data_dir baseline_config) ''base_tmin.tif'')
        (path_join (data_dir baseline_config) ''base_tmax.tif'') = None" ..
  have h3: "path_exists ?fs (path_join (data_dir baseline_config) ''tmin.tif'')"
    and h4: "path_exists ?fs (path_join (data_dir baseline_config) ''tmax.tif'')"
    by (simp_all add: d path_join_empty example_paths)
  have h5: "load_avg_temp ?fs (path_join (data_dir baseline_config) ''tmin.tif'')
        (path_join (data_dir baseline_config) ''tmax.tif'') = Some (example_avg (1, 2), example_affine, None)"
    by (simp add: d path_join_empty example_load)
  from baseline_failure_ignored [OF h1 h2', where fs' = "?fs" and tmin_file = "''tmin.tif''"
      and tmax_file = "''tmax.tif''" and avg = "example_avg (1, 2)" and t = example_affine
      and c = None and label = "''2021-2040''"] h1 h2 h3 h4 h5
  show ?thesis
    by blast
qed

lemma example_cells_facts:
  "\<forall>p\<in>set (List.product [0..<4] [0..<4]).
     length (example_cells p) = 15 \<and> p \<notin> set (example_cells p)"
  by code_simp

text \<open>
  C7. The example: two 4 by 4 rasters, the minimum band 100 everywhere but at one cell
  (i, j) that holds the nodata value -9999, the maximum band 200 everywhere, no baseline.
  The derived grid is 15 at every cell and NaN at (i, j); the period writes exactly one
  feature, with the value 15 and a polygon made of the 15 other cells.
\<close>

theorem example_scenario:
  assumes "i < 4" and "j < 4" and "data_dir cfg = []"
  shows "load_avg_temp (example_fs (i, j) t c) ''tmin.tif'' ''tmax.tif'' =
           Some (example_avg (i, j), t, c)
     \<and> (\<forall>r<4. \<forall>k<4. cell_at (example_avg (i, j)) (r, k) = (if (r, k) = (i, j) then NaN else Fin 15))
     \<and> process_period cfg None (label, ''tmin.tif'', ''tmax.tif'') (example_fs (i, j) t c) =
         (None, (example_fs (i, j) t c)(out_path cfg label \<mapsto>
            GeoJSON \<lparr>gdf_rows = [\<lparr>row_geometry = Some (Polygon t (example_cells (i, j))),
                                     row_change = Fin 15\<rparr>],
                     gdf_crs = c\<rparr>))
     \<and> length (example_cells (i, j)) = 15
     \<and> (i, j) \<notin> set (example_cells (i, j))
     \<and> set (example_cells (i, j)) = {(r, k). r < 4 \<and> k < 4} - {(i, j)}"
proof -
  let ?fs = "example_fs (i, j) t c"
  have cells: "cell_at (example_avg (i, j)) (r, k) = (if (r, k) = (i, j) then NaN else Fin 15)"
    if "r < 4" and "k < 4" for r k
    using that by (simp add: example_avg_def cell_at_def)
  have "period_frame cfg None (label, ''tmin.tif'', ''tmax.tif'') ?fs =
      Inr (from_features (vectorize (example_avg (i, j)) t) c)"
    using period_frame_loaded [of ?fs cfg "''tmin.tif''" "''tmax.tif''" "example_avg (i, j)" t c None label]
    by (simp add: assms(3) path_join_empty example_paths example_load change_grid_def)
  from process_period_writes [OF this]
  have w: "process_period cfg None (label, ''tmin.tif'', ''tmax.tif'') ?fs =
         (None, ?fs(out_path cfg label \<mapsto>
            GeoJSON \<lparr>gdf_rows = [\<lparr>row_geometry = Some (Polygon t (example_cells (i, j))),
                                     row_change = Fin 15\<rparr>],
                     gdf_crs = c\<rparr>))"
    by (simp add: example_vectorize [OF assms(1,2)] from_features_def)
  from assms(1,2) have "(i, j) \<in> set (List.product [0..<4] [0..<4])"
    by simp
  with example_cells_facts have n: "length (example_cells (i, j)) = 15"
    and x: "(i, j) \<notin> set (example_cells (i, j))"
    by blast+
  have "concat (map (\<lambda>r. map (Pair r) [0..<4]) [0..<4]) = List.product [0..<4] [0..<4]"
    by (simp only: product_concat_map)
  then have s: "set (example_cells (i, j)) = {(r, k). r < 4 \<and> k < 4} - {(i, j)}"
    unfolding example_cells_def by (simp only: set_filter set_product) auto
  from example_load cells w n x s show ?thesis
    by simp
qed

theorem example_scenario_witness:
  "(1::nat) < 4 \<and> (2::nat) < 4 \<and> data_dir example_config = []
   \<and> load_avg_temp (example_fs (1, 2) example_affine None) ''tmin.tif'' ''tmax.tif'' =
       Some (example_avg (1, 2), example_affine, None)
   \<and> process_period example_config None (''2021-2040'', ''tmin.tif'', ''tmax.tif'')
        (example_fs (1, 2) example_affine None) =
       (None, (example_fs (1, 2) example_affine None)(out_path example_config ''2021-2040'' \<mapsto>
          GeoJSON \<lparr>gdf_rows = [\<lparr>row_geometry = Some (Polygon example_affine (example_cells (1, 2))),
                                   row_change = Fin 15\<rparr>],
                   gdf_crs = None\<rparr>))
   \<and> length (example_cells (1, 2)) = 15"
proof -
  have h1: "(1::nat) < 4" and h2: "(2::nat) < 4"
    by simp_all
  have h3: "data_dir example_config = []"
    by (simp add: example_config_def)
  from example_scenario [OF h1 h2 h3, of example_affine None "''2021-2040''"] h3 show ?thesis
    by simp
qed

section \<open>Nodata cells\<close>

lemma shape_map2:
  assumes "rect a" and "rect b" and "same_shape a b"
  shows "rect (map2 (map2 f) a b)" and "same_shape (map2 (map2 f) a b) a"
proof -
  from assms(3) have n: "nrows b = nrows a" and c: "ncols b = ncols a"
    by (simp_all add: same_shape_def)
  have ra: "\<forall>x\<in>set a. length x = ncols a"
    using assms(1) by (simp add: rect_def list_all_iff)
  have rb: "\<forall>y\<in>set b. length y = ncols a"
    using assms(2) c by (simp add: rect_def list_all_iff)
  have rows: "length z = ncols a" if "z \<in> set (map2 (map2 f) a b)" for z
  proof -
    from that obtain x y where "(x, y) \<in> set (zip a b)" and z: "z = map2 f x y"
      by auto
    then have "x \<in> set a" and "y \<in> set b"
      by (auto dest: set_zip_leftD set_zip_rightD)
    with ra rb z show ?thesis
      by simp
  qed
  have nr: "nrows (map2 (map2 f) a b) = nrows a"
    using n by (simp add: nrows_def)
  from assms(1) nr have "map2 (map2 f) a b \<noteq> []"
    by (auto simp: rect_def nrows_def)
  then obtain z zs where zs: "map2 (map2 f) a b = z # zs"
    by (cases "map2 (map2 f) a b") auto
  then have "z \<in> set (map2 (map2 f) a b)"
    by simp
  from rows [OF this] zs have nc: "ncols (map2 (map2 f) a b) = ncols a"
    by (simp add: ncols_def)
  from assms(1) nr nc rows show "rect (map2 (map2 f) a b)"
    by (simp add: rect_def list_all_iff)
  from nr nc show "same_shape (map2 (map2 f) a b) a"
    by (simp add: same_shape_def)
qed

lemma in_bounds_mask_nodata: "in_bounds (mask_nodata nd (astype_float32 a)) p = in_bounds a p"
  by (simp add: mask_nodata_def set_nan_where_eq_def astype_float32_def in_bounds_map
      split: option.splits)

lemma cell_at_mask_nodata:
  assumes "in_bounds a p"
  shows "cell_at (mask_nodata (Some nd) (astype_float32 a)) p =
           (if feq (to_f32 (cell_at a p)) (to_f32 nd) then NaN else to_f32 (cell_at a p))"
  using assms
  by (simp add: mask_nodata_def set_nan_where_eq_def astype_float32_def in_bounds_map cell_at_map)

lemma masked_cell_NaN:
  assumes "in_bounds a p" and "to_f32 (cell_at a p) = to_f32 nd"
  shows "cell_at (mask_nodata (Some nd) (astype_float32 a)) p = NaN"
  using assms(2) by (simp add: cell_at_mask_nodata [OF assms(1)] feq_def)

lemma mean_NaN:
  "fdiv32 (fdiv32 (fadd32 NaN y) 2) 10 = NaN" "fdiv32 (fdiv32 (fadd32 x NaN) 2) 10 = NaN"
  by (simp_all add: fadd32_NaN_right)

text \<open>
  C3. When the minimum raster declares a nodata value, a cell whose float32 value equals
  it, in the minimum or in the maximum band, is NaN in the masked band and in the derived
  grid; it stays NaN in the grid that is traced (without a baseline, or with a baseline
  of the same shape), its mask cell is false, and no feature that the period writes
  covers it.
\<close>

theorem nodata_cells_masked:
  assumes "fs (path_join (data_dir cfg) tmin_file) = Some (Raster dmin)"
    and "fs (path_join (data_dir cfg) tmax_file) = Some (Raster dmax)"
    and "read1 dmin = Inr a" and "read1 dmax = Inr b"
    and "rect a" and "rect b" and "same_shape a b"
    and "nodata dmin = Some nd"
    and "r < nrows a" and "k < ncols a"
    and "to_f32 (cell_at a (r, k)) = to_f32 nd \<or> to_f32 (cell_at b (r, k)) = to_f32 nd"
    and "baseline_arr = None \<or> (\<exists>bl. baseline_arr = Some bl \<and> rect bl \<and> same_shape a bl)"
  shows "\<exists>avg t c chg g.
      load_avg_temp fs (path_join (data_dir cfg) tmin_file) (path_join (data_dir cfg) tmax_file) =
        Some (avg, t, c)
    \<and> (to_f32 (cell_at a (r, k)) = to_f32 nd \<longrightarrow>
         cell_at (mask_nodata (nodata dmin) (astype_float32 a)) (r, k) = NaN)
    \<and> (to_f32 (cell_at b (r, k)) = to_f32 nd \<longrightarrow>
         cell_at (mask_nodata (nodata dmin) (astype_float32 b)) (r, k) = NaN)
    \<and> cell_at avg (r, k) = NaN
    \<and> change_grid avg baseline_arr = Inr chg
    \<and> cell_at chg (r, k) = NaN
    \<and> \<not> mask_at (notnan_mask chg) (r, k)
    \<and> process_period cfg baseline_arr (label, tmin_file, tmax_file) fs =
         (None, fs(out_path cfg label \<mapsto> GeoJSON g))
    \<and> (\<forall>row\<in>set (gdf_rows g). \<forall>geom. row_geometry row = Some geom \<longrightarrow> \<not> covers geom (r, k))"
proof -
  let ?p1 = "path_join (data_dir cfg) tmin_file"
  let ?p2 = "path_join (data_dir cfg) tmax_file"
  let ?A = "mask_nodata (nodata dmin) (astype_float32 a)"
  let ?B = "mask_nodata (nodata dmin) (astype_float32 b)"
  let ?avg = "map2 (map2 (\<lambda>x y. fdiv32 (fdiv32 (fadd32 x y) 2) 10)) ?A ?B"
  have load: "load_avg_temp fs ?p1 ?p2 = Some (?avg, transform dmin, crs dmin)"
    using assms(1-7) by (rule load_avg_temp_rect)
  have ia: "in_bounds a (r, k)"
    using assms(9,10) by (simp add: in_bounds_rect [OF assms(5)])
  then have ib: "in_bounds b (r, k)"
    using in_bounds_same_shape [OF assms(5-7)] by simp
  have mA: "cell_at ?A (r, k) = NaN" if "to_f32 (cell_at a (r, k)) = to_f32 nd"
    using masked_cell_NaN [OF ia that] by (simp add: assms(8))
  have mB: "cell_at ?B (r, k) = NaN" if "to_f32 (cell_at b (r, k)) = to_f32 nd"
    using masked_cell_NaN [OF ib that] by (simp add: assms(8))
  have iA: "in_bounds ?A (r, k)" and iB: "in_bounds ?B (r, k)"
    using ia ib by (simp_all add: in_bounds_mask_nodata)
  have "cell_at ?avg (r, k) =
      fdiv32 (fdiv32 (fadd32 (cell_at ?A (r, k)) (cell_at ?B (r, k))) 2) 10"
    by (rule cell_at_map2 [OF iA iB])
  with assms(11) mA mB have avg_nan: "cell_at ?avg (r, k) = NaN"
    by (auto simp: mean_NaN)
  have rA: "rect ?A" and rB: "rect ?B"
    using assms(5,6) by (simp_all add: rect_mask_nodata)
  have sAB: "same_shape ?A ?B"
    using assms(7) by (simp add: same_shape_def shape_mask_nodata)
  have r_avg: "rect ?avg" and "same_shape ?avg ?A"
    by (rule shape_map2 [OF rA rB sAB])+
  then have s_avg: "same_shape ?avg a"
    by (simp add: same_shape_def shape_mask_nodata)
  have i_avg: "in_bounds ?avg (r, k)"
    by (rule in_bounds_map2 [OF iA iB])
  obtain chg where chg: "change_grid ?avg baseline_arr = Inr chg" and chg_nan: "cell_at chg (r, k) = NaN"
  proof (cases baseline_arr)
    case None
    then have "change_grid ?avg baseline_arr = Inr ?avg"
      by (simp add: change_grid_def)
    with avg_nan that show ?thesis
      by blast
  next
    case (Some bl)
    with assms(12) have rb: "rect bl" and sb: "same_shape a bl"
      by auto
    from s_avg sb have s: "same_shape ?avg bl"
      by (simp add: same_shape_def)
    have g: "change_grid ?avg baseline_arr = Inr (map2 (map2 fsub32) ?avg bl)"
      by (simp add: Some change_grid_def arr_binop_same_shape [OF r_avg rb s])
    from i_avg have "in_bounds bl (r, k)"
      using in_bounds_same_shape [OF r_avg rb s] by simp
    from cell_at_map2 [OF i_avg this, of fsub32] avg_nan
    have "cell_at (map2 (map2 fsub32) ?avg bl) (r, k) = NaN"
      by (simp add: fsub32_NaN)
    with g that show ?thesis
      by blast
  qed
  have nm: "\<not> mask_at (notnan_mask chg) (r, k)"
    by (simp add: mask_at_notnan chg_nan)
  let ?g = "from_features (vectorize chg (transform dmin)) (crs dmin)"
  have e1: "path_exists fs ?p1" and e2: "path_exists fs ?p2"
    using assms(1,2) by (simp_all add: path_exists_def)
  have "period_frame cfg baseline_arr (label, tmin_file, tmax_file) fs = Inr ?g"
    by (simp add: period_frame_loaded [OF e1 e2 load] chg)
  note w = process_period_writes [OF this]
  have rows: "\<not> covers geom (r, k)"
    if "row \<in> set (gdf_rows ?g)" and "row_geometry row = Some geom" for row geom
  proof
    assume cv: "covers geom (r, k)"
    from that obtain f where f: "f \<in> set (vectorize chg (transform dmin))"
      and "geom = geometry f"
      by (auto simp: from_features_def)
    with cv have "covers (geometry f) (r, k)"
      by simp
    from vectorize_covers [OF f this] chg_nan show False
      by simp
  qed
  from load mA mB avg_nan chg chg_nan nm w rows show ?thesis
    by blast
qed

theorem nodata_cells_masked_witness:
  "example_fs (1, 2) example_affine None (path_join (data_dir example_config) ''tmin.tif'') =
     Some (Raster \<lparr>read1 = Inr (example_tmin (1, 2)), nodata = Some (Fin (- 9999)),
                    transform = example_affine, crs = None\<rparr>)
   \<and> rect (example_tmin (1, 2)) \<and> rect example_tmax \<and> same_shape (example_tmin (1, 2)) example_tmax
   \<and> 1 < nrows (example_tmin (1, 2)) \<and> 2 < ncols (example_tmin (1, 2))
   \<and> to_f32 (cell_at (example_tmin (1, 2)) (1, 2)) = to_f32 (Fin (- 9999))
   \<and> (\<exists>avg t c chg g.
        load_avg_temp (example_fs (1, 2) example_affine None)
          (path_join (data_dir example_config) ''tmin.tif'')
          (path_join (data_dir example_config) ''tmax.tif'') = Some (avg, t, c)
      \<and> cell_at avg (1, 2) = NaN
      \<and> change_grid avg None = Inr chg
      \<and> \<not> mask_at (notnan_mask chg) (1, 2)
      \<and> process_period example_config None (''2021-2040'', ''tmin.tif'', ''tmax.tif'')
           (example_fs (1, 2) example_affine None) =
          (None, (example_fs (1, 2) example_affine None)(out_path example_config ''2021-2040'' \<mapsto> GeoJSON g))
      \<and> (\<forall>row\<in>set (gdf_rows g). \<forall>geom. row_geometry row = Some geom \<longrightarrow> \<not> covers geom (1, 2)))"
proof -
  let ?fs = "example_fs (1, 2) example_affine None"
  let ?dmin = "\<lparr>read1 = Inr (example_tmin (1, 2)), nodata = Some (Fin (- 9999)),
                transform = example_affine, crs = None\<rparr>"
  let ?dmax = "\<lparr>read1 = Inr example_tmax, nodata = Some (Fin (- 9999)),
                transform = example_affine, crs = None\<rparr>"
  have d: "data_dir example_config = []"
    by (simp add: example_config_def)
  have h1: "?fs (path_join (data_dir example_config) ''tmin.tif'') = Some (Raster ?dmin)"
    and h2: "?fs (path_join (data_dir example_config) ''tmax.tif'') = Some (Raster ?dmax)"
    by (simp_all add: d path_join_empty example_fs_def)
  have h3: "read1 ?dmin = Inr (example_tmin (1, 2))" and h4: "read1 ?dmax = Inr example_tmax"
    and h8: "nodata ?dmin = Some (Fin (- 9999))"
    by simp_all
  note h5 = rect_example_tmin [of "(1, 2)"] and h6 = rect_example_tmax
    and h7 = same_shape_example [of "(1, 2)"]
  have h9: "1 < nrows (example_tmin (1, 2))" and h10: "2 < ncols (example_tmin (1, 2))"
    by (simp_all add: example_tmin_def nrows_def ncols_def upt_rec)
  have c: "to_f32 (cell_at (example_tmin (1, 2)) (1, 2)) = to_f32 (Fin (- 9999))"
    by (simp add: example_tmin_def cell_at_def del: to_f32.simps)
  then have h11: "to_f32 (cell_at (example_tmin (1, 2)) (1, 2)) = to_f32 (Fin (- 9999)) \<or>
      to_f32 (cell_at example_tmax (1, 2)) = to_f32 (Fin (- 9999))" ..
  have h12: "(None :: arr option) = None \<or>
      (\<exists>bl. (None :: arr option) = Some bl \<and> rect bl \<and> same_shape (example_tmin (1, 2)) bl)"
    by simp
  from nodata_cells_masked [where fs = "?fs" and cfg = example_config and tmin_file = "''tmin.tif''"
      and tmax_file = "''tmax.tif''" and label = "''2021-2040''",
      OF h1 h2 h3 h4 h5 h6 h7 h8 h9 h10 h11 h12]
  obtain avg t c' chg g where
    "load_avg_temp ?fs (path_join (data_dir example_config) ''tmin.tif'')
          (path_join (data_dir example_config) ''tmax.tif'') = Some (avg, t, c')
      \<and> cell_at avg (1, 2) = NaN
      \<and> change_grid avg None = Inr chg
      \<and> \<not> mask_at (notnan_mask chg) (1, 2)
      \<and> process_period example_config None (''2021-2040'', ''tmin.tif'', ''tmax.tif'') ?fs =
          (None, ?fs(out_path example_config ''2021-2040'' \<mapsto> GeoJSON g))
      \<and> (\<forall>row\<in>set (gdf_rows g). \<forall>geom. row_geometry row = Some geom \<longrightarrow> \<not> covers geom (1, 2))"
    by blast
  then have "\<exists>avg t c chg g.
        load_avg_temp ?fs (path_join (data_dir example_config) ''tmin.tif'')
          (path_join (data_dir example_config) ''tmax.tif'') = Some (avg, t, c)
      \<and> cell_at avg (1, 2) = NaN
      \<and> change_grid avg None = Inr chg
      \<and> \<not> mask_at (notnan_mask chg) (1, 2)
      \<and> process_period example_config None (''2021-2040'', ''tmin.tif'', ''tmax.tif'') ?fs =
          (None, ?fs(out_path example_config ''2021-2040'' \<mapsto> GeoJSON g))
      \<and> (\<forall>row\<in>set (gdf_rows g). \<forall>geom. row_geometry row = Some geom \<longrightarrow> \<not> covers geom (1, 2))"
    by blast
  with h1 h5 h6 h7 h9 h10 c show ?thesis
    by blast
qed

section \<open>The values that are written\<close>













section \<open>Runs on the same input files\<close>

lemma load_avg_temp_cong:
  assumes "fs1 p1 = fs2 p1" and "fs1 p2 = fs2 p2"
  shows "load_avg_temp fs1 p1 p2 = load_avg_temp fs2 p1 p2"
proof -
  from assms have a: "rasterio_open fs1 p1 = rasterio_open fs2 p1"
    and b: "rasterio_open fs1 p2 = rasterio_open fs2 p2"
    by (simp_all add: rasterio_open_def)
  show ?thesis
    unfolding load_avg_temp_def load_avg_temp_try_def a b by (rule refl)
qed

lemma period_frame_cong:
  assumes "fs1 (path_join (data_dir cfg) tmin_file) = fs2 (path_join (data_dir cfg) tmin_file)"
    and "fs1 (path_join (data_dir cfg) tmax_file) = fs2 (path_join (data_dir cfg) tmax_file)"
  shows "period_frame cfg baseline_arr (label, tmin_file, tmax_file) fs1 =
         period_frame cfg baseline_arr (label, tmin_file, tmax_file) fs2"
  using assms load_avg_temp_cong [of fs1 "path_join (data_dir cfg) tmin_file" fs2
      "path_join (data_dir cfg) tmax_file"]
  by (simp add: period_frame_def Let_def path_exists_def)

lemma input_paths_Cons:
  "input_paths cfg ((label, tmin_file, tmax_file) # ps) =
     {path_join (data_dir cfg) tmin_file, path_join (data_dir cfg) tmax_file} \<union> input_paths cfg ps"
  by (simp add: input_paths_def)

lemma output_paths_Cons:
  "output_paths cfg ((label, tmin_file, tmax_file) # ps) =
     insert (out_path cfg label) (output_paths cfg ps)"
  by (simp add: output_paths_def)

lemma run_periods_step:
  assumes "period_frame cfg None (label, tmin_file, tmax_file) fs = Inr g"
  shows "run_periods cfg None ((label, tmin_file, tmax_file) # ps) fs =
         run_periods cfg None ps (fs(out_path cfg label \<mapsto> GeoJSON g))"
  using assms by (simp add: process_period_def)

lemma run_periods_agree:
  assumes "\<forall>p\<in>A. fs1 p = fs2 p" and "input_paths cfg ps \<subseteq> A"
  shows "\<forall>p\<in>A \<union> output_paths cfg ps.
           snd (run_periods cfg None ps fs1) p = snd (run_periods cfg None ps fs2) p"
  using assms
proof (induction ps arbitrary: fs1 fs2 A)
  case Nil
  then show ?case
    by (simp add: output_paths_def)
next
  case (Cons x ps)
  obtain label tmin_file tmax_file where x: "x = (label, tmin_file, tmax_file)"
    by (cases x) auto
  from period_frame_no_baseline obtain g
    where g1: "period_frame cfg None (label, tmin_file, tmax_file) fs1 = Inr g"
    by blast
  from Cons.prems have "fs1 (path_join (data_dir cfg) tmin_file) = fs2 (path_join (data_dir cfg) tmin_file)"
    and "fs1 (path_join (data_dir cfg) tmax_file) = fs2 (path_join (data_dir cfg) tmax_file)"
    by (auto simp: x input_paths_Cons)
  from period_frame_cong [of fs1 cfg tmin_file fs2 tmax_file None label, OF this] g1
  have g2: "period_frame cfg None (label, tmin_file, tmax_file) fs2 = Inr g"
    by simp
  let ?o = "out_path cfg label"
  let ?fs1 = "fs1(?o \<mapsto> GeoJSON g)" and ?fs2 = "fs2(?o \<mapsto> GeoJSON g)"
  have agree: "\<forall>p\<in>insert ?o A. ?fs1 p = ?fs2 p"
    using Cons.prems(1) by simp
  have sub: "input_paths cfg ps \<subseteq> insert ?o A"
    using Cons.prems(2) by (auto simp: x input_paths_Cons)
  have s1: "run_periods cfg None (x # ps) fs1 = run_periods cfg None ps ?fs1"
    and s2: "run_periods cfg None (x # ps) fs2 = run_periods cfg None ps ?fs2"
    unfolding x by (rule run_periods_step [OF g1], rule run_periods_step [OF g2])
  have o: "A \<union> output_paths cfg (x # ps) = insert ?o A \<union> output_paths cfg ps"
    unfolding x output_paths_Cons by blast
  from Cons.IH [OF agree sub] show ?case
    unfolding s1 s2 o .
qed

lemma run_periods_frame:
  assumes "p \<notin> output_paths cfg ps"
  shows "snd (run_periods cfg None ps fs) p = fs p"
  using assms
proof (induction ps arbitrary: fs)
  case Nil
  show ?case by simp
next
  case (Cons x ps)
  obtain label tmin_file tmax_file where x: "x = (label, tmin_file, tmax_file)"
    by (cases x) auto
  from period_frame_no_baseline obtain g
    where g: "period_frame cfg None (label, tmin_file, tmax_file) fs = Inr g"
    by blast
  let ?fs = "fs(out_path cfg label \<mapsto> GeoJSON g)"
  have step: "run_periods cfg None (x # ps) fs = run_periods cfg None ps ?fs"
    unfolding x by (rule run_periods_step [OF g])
  from Cons.prems have ne: "p \<noteq> out_path cfg label" and out: "p \<notin> output_paths cfg ps"
    by (simp_all add: x output_paths_Cons)
  have "snd (run_periods cfg None ps ?fs) p = ?fs p"
    by (rule Cons.IH [OF out])
  also have "?fs p = fs p"
    using ne by simp
  finally show ?case
    unfolding step .
qed

lemma run_periods_keeps:
  assumes "\<exists>g. fs p = Some (GeoJSON g)"
  shows "\<exists>g. snd (run_periods cfg None ps fs) p = Some (GeoJSON g)"
  using assms
proof (induction ps arbitrary: fs)
  case Nil
  then show ?case by simp
next
  case (Cons x ps)
  obtain label tmin_file tmax_file where x: "x = (label, tmin_file, tmax_file)"
    by (cases x) auto
  from period_frame_no_baseline obtain g
    where g: "period_frame cfg None (label, tmin_file, tmax_file) fs = Inr g"
    by blast
  let ?fs = "fs(out_path cfg label \<mapsto> GeoJSON g)"
  have step: "run_periods cfg None (x # ps) fs = run_periods cfg None ps ?fs"
    unfolding x by (rule run_periods_step [OF g])
  from Cons.prems have "\<exists>g'. ?fs p = Some (GeoJSON g')"
    by simp
  then have "\<exists>g'. snd (run_periods cfg None ps ?fs) p = Some (GeoJSON g')"
    by (rule Cons.IH)
  then show ?case
    unfolding step .
qed

lemma run_periods_written:
  assumes "p \<in> output_paths cfg ps"
  shows "\<exists>g. snd (run_periods cfg None ps fs) p = Some (GeoJSON g)"
  using assms
proof (induction ps arbitrary: fs)
  case Nil
  then show ?case by (simp add: output_paths_def)
next
  case (Cons x ps)
  obtain label tmin_file tmax_file where x: "x = (label, tmin_file, tmax_file)"
    by (cases x) auto
  from period_frame_no_baseline obtain g
    where g: "period_frame cfg None (label, tmin_file, tmax_file) fs = Inr g"
    by blast
  let ?fs = "fs(out_path cfg label \<mapsto> GeoJSON g)"
  have step: "run_periods cfg None (x # ps) fs = run_periods cfg None ps ?fs"
    unfolding x by (rule run_periods_step [OF g])
  show ?case
  proof (cases "p \<in> output_paths cfg ps")
    case True
    then have "\<exists>g'. snd (run_periods cfg None ps ?fs) p = Some (GeoJSON g')"
      by (rule Cons.IH)
    then show ?thesis
      unfolding step .
  next
    case False
    with Cons.prems have "p = out_path cfg label"
      by (simp add: x output_paths_Cons)
    then have "\<exists>g'. ?fs p = Some (GeoJSON g')"
      by simp
    then have "\<exists>g'. snd (run_periods cfg None ps ?fs) p = Some (GeoJSON g')"
      by (rule run_periods_keeps)
    then show ?thesis
      unfolding step .
  qed
qed

lemma main_no_baseline:
  assumes "baseline_period cfg = None"
  shows "main cfg fs = run_periods cfg None (periods cfg) fs"
  using assms by (simp add: main_def load_baseline_def)

text \<open>
  C8. Without a baseline, two runs whose file systems hold the same input files end
  without an exception and leave the same collection in the output file of every
  period. In particular, when no output path is an input path, a second run on the
  files that the first run left writes the same collections again.
\<close>

theorem main_deterministic:
  assumes "baseline_period cfg = None"
    and "\<forall>p\<in>input_paths cfg (periods cfg). fs1 p = fs2 p"
  shows "fst (main cfg fs1) = None \<and> fst (main cfg fs2) = None
     \<and> (\<forall>p\<in>output_paths cfg (periods cfg).
          snd (main cfg fs1) p = snd (main cfg fs2) p \<and>
          (\<exists>g. snd (main cfg fs1) p = Some (GeoJSON g)))
     \<and> (input_paths cfg (periods cfg) \<inter> output_paths cfg (periods cfg) = {} \<longrightarrow>
          (\<forall>p\<in>output_paths cfg (periods cfg).
             snd (main cfg (snd (main cfg fs1))) p = snd (main cfg fs1) p))"
proof -
  let ?ps = "periods cfg"
  note m = main_no_baseline [OF assms(1)]
  have ends: "fst (main cfg fs1) = None" "fst (main cfg fs2) = None"
    by (simp_all add: m run_periods_no_baseline)
  have same: "\<forall>p\<in>output_paths cfg ?ps. snd (main cfg fs1) p = snd (main cfg fs2) p"
    using run_periods_agree [OF assms(2) subset_refl] by (simp add: m)
  have written: "\<forall>p\<in>output_paths cfg ?ps. \<exists>g. snd (main cfg fs1) p = Some (GeoJSON g)"
    using run_periods_written by (simp add: m)
  have again: "\<forall>p\<in>output_paths cfg ?ps. snd (main cfg (snd (main cfg fs1))) p = snd (main cfg fs1) p"
    if disj: "input_paths cfg ?ps \<inter> output_paths cfg ?ps = {}"
  proof -
    have "\<forall>p\<in>input_paths cfg ?ps. snd (main cfg fs1) p = fs1 p"
      using disj by (auto simp: m intro: run_periods_frame)
    then have "\<forall>p\<in>input_paths cfg ?ps. snd (main cfg fs1) p = fs1 p" .
    from run_periods_agree [OF this subset_refl] show ?thesis
      by (simp add: m)
  qed
  from ends same written again show ?thesis
    by blast
qed

theorem main_deterministic_witness:
  "baseline_period example_config = None
   \<and> input_paths example_config (periods example_config) = {''tmin.tif'', ''tmax.tif''}
   \<and> example_fs (1, 2) example_affine None ''tmin.tif'' =
       ((example_fs (1, 2) example_affine None)(''notes.txt'' \<mapsto> Unreadable OtherException)) ''tmin.tif''
   \<and> example_fs (1, 2) example_affine None ''tmax.tif'' =
       ((example_fs (1, 2) example_affine None)(''notes.txt'' \<mapsto> Unreadable OtherException)) ''tmax.tif''
   \<and> output_paths example_config (periods example_config) =
       {''../../public/data/avg_temp_change_2021-2040.json''}
   \<and> fst (main example_config (example_fs (1, 2) example_affine None)) = None
   \<and> snd (main example_config (example_fs (1, 2) example_affine None))
         ''../../public/data/avg_temp_change_2021-2040.json'' =
       snd (main example_config
              ((example_fs (1, 2) example_affine None)(''notes.txt'' \<mapsto> Unreadable OtherException)))
         ''../../public/data/avg_temp_change_2021-2040.json''
   \<and> snd (main example_config (snd (main example_config (example_fs (1, 2) example_affine None))))
         ''../../public/data/avg_temp_change_2021-2040.json'' =
       snd (main example_config (example_fs (1, 2) example_affine None))
         ''../../public/data/avg_temp_change_2021-2040.json''"
proof -
  let ?fs1 = "example_fs (1, 2) example_affine None"
  let ?fs2 = "?fs1(''notes.txt'' \<mapsto> Unreadable OtherException)"
  have h1: "baseline_period example_config = None"
    by (simp add: example_config_def)
  have ip: "input_paths example_config (periods example_config) = {''tmin.tif'', ''tmax.tif''}"
    by (simp add: input_paths_def example_config_def path_join_empty)
  have op: "output_paths example_config (periods example_config) =
      {''../../public/data/avg_temp_change_2021-2040.json''}"
    by (simp add: output_paths_def out_path_def path_join_def example_config_def)
  have h2: "\<forall>p\<in>input_paths example_config (periods example_config). ?fs1 p = ?fs2 p"
    by (simp add: ip)
  have h3: "input_paths example_config (periods example_config) \<inter>
       output_paths example_config (periods example_config) = {}"
    by (simp add: ip op)
  have e: "?fs1 ''tmin.tif'' = ?fs2 ''tmin.tif''" "?fs1 ''tmax.tif'' = ?fs2 ''tmax.tif''"
    by simp_all
  have mem: "''../../public/data/avg_temp_change_2021-2040.json'' \<in>
      output_paths example_config (periods example_config)"
    unfolding op by simp
  from main_deterministic [OF h1 h2] h3 mem
  have "fst (main example_config ?fs1) = None
     \<and> snd (main example_config ?fs1) ''../../public/data/avg_temp_change_2021-2040.json'' =
         snd (main example_config ?fs2) ''../../public/data/avg_temp_change_2021-2040.json''
     \<and> snd (main example_config (snd (main example_config ?fs1)))
           ''../../public/data/avg_temp_change_2021-2040.json'' =
         snd (main example_config ?fs1) ''../../public/data/avg_temp_change_2021-2040.json''"
    by blast
  with h1 ip op e show ?thesis
    by blast
qed

end
